theory Spec2Isabelle
  imports Main
begin

section \<open>Go runtime and library functions used by the package\<close>

text \<open>
  Go strings are byte sequences; they are modelled as \<open>string\<close> (a list of \<open>char\<close>,
  each char a byte). A slice index out of range is a run-time panic in Go: \<open>go_index\<close>
  returns \<open>None\<close> there, so that a panic is a value of the model.
\<close>

definition go_index :: "'a list \<Rightarrow> nat \<Rightarrow> 'a option" where
  "go_index xs i = (if i < length xs then Some (xs ! i) else None)"

text \<open>
  \<open>strings.Split(s, sep)\<close> for a one-byte separator, the only kind this package passes
  (\<open>topicSeparator\<close>). As the library's \<open>genSplit\<close> does, it looks for the next
  occurrence of the separator, emits the bytes before it, and goes on with the bytes
  after it; the rest of the string is the last segment.
\<close>

function Split :: "string \<Rightarrow> char \<Rightarrow> string list" where
  "Split s sep =
     (case dropWhile (\<lambda>c. c \<noteq> sep) s of
        [] \<Rightarrow> [s]
      | _ # rest \<Rightarrow> takeWhile (\<lambda>c. c \<noteq> sep) s # Split rest sep)"
  by pat_completeness auto
termination
proof (relation "measure (\<lambda>(s, sep). length s)")
  show "wf (measure (\<lambda>(s, sep). length s))" by simp
next
  fix s :: string and sep :: char and x21 :: char and x22 :: string
  assume d: "dropWhile (\<lambda>c. c \<noteq> sep) s = x21 # x22"
  have "length (dropWhile (\<lambda>c. c \<noteq> sep) s) \<le> length s"
    by (rule length_dropWhile_le)
  with d show "((x22, sep), (s, sep)) \<in> measure (\<lambda>(s, sep). length s)"
    by simp
qed

declare Split.simps [simp del]

text \<open>\<open>strings.Join(elems, sep)\<close>.\<close>

fun Join :: "string list \<Rightarrow> string \<Rightarrow> string" where
  "Join [] sep = []"
| "Join [x] sep = x"
| "Join (x # y # ys) sep = x @ sep @ Join (y # ys) sep"

section \<open>Package slacknotifier\<close>

text \<open>
  The variadic \<open>args ...interface{}\<close> of \<open>Notify\<close> are told apart by a type switch with
  two cases, in this order: the concrete type \<open>slack.Attachment\<close>, then the interface
  \<open>SlackAttachmentCreator\<close>. An argument is therefore one of three kinds. The types
  \<open>'att\<close> (slack.Attachment), \<open>'c\<close> (a value with a \<open>SlackAttachment()\<close> method) and
  \<open>'o\<close> (anything else) belong to the callers and to the slack library.
\<close>

datatype ('att, 'c, 'o) arg =
    Attachment 'att
  | Creator 'c
  | Other 'o

text \<open>The two logrus calls of \<open>Notify\<close>, in the order they are made.\<close>

datatype ('x, 'e) log_entry =
    Infof string "'x list"
  | Errorf 'e

text \<open>
  The \<open>for idx, arg := range args\<close> loop. The state is the pair
  \<open>(slackAttachments, slackArgsOffset)\<close>; \<open>sa\<close> is the method \<open>SlackAttachment()\<close>.
\<close>

fun Notify_loop ::
  "('c \<Rightarrow> 'att) \<Rightarrow> ('att, 'c, 'o) arg list \<Rightarrow> int \<Rightarrow> 'att list \<times> int \<Rightarrow> 'att list \<times> int"
where
  "Notify_loop sa [] idx st = st"
| "Notify_loop sa (a # rest) idx (slackAttachments, slackArgsOffset) =
     Notify_loop sa rest (idx + 1)
       (case a of
          Attachment x \<Rightarrow>
            (slackAttachments @ [x],
             if slackArgsOffset = - 1 then idx else slackArgsOffset)
        | Creator c \<Rightarrow>
            (slackAttachments @ [sa c],
             if slackArgsOffset = - 1 then idx else slackArgsOffset)
        | Other _ \<Rightarrow> (slackAttachments, slackArgsOffset))"

text \<open>
  \<open>Notify\<close>. \<open>sprintf\<close> is \<open>fmt.Sprintf\<close> and \<open>post channel text attachments\<close> is the
  client's \<open>PostMessageContext\<close> with the options \<open>MsgOptionText(text, true)\<close> and
  \<open>MsgOptionAttachments(attachments...)\<close>; it answers with the error (\<open>None\<close> is
  \<open>nil\<close>). The result is the returned error and the log lines written.
\<close>

definition Notify ::
  "('c \<Rightarrow> 'att) \<Rightarrow> (string \<Rightarrow> ('att, 'c, 'o) arg list \<Rightarrow> string) \<Rightarrow>
   (string \<Rightarrow> string \<Rightarrow> 'att list \<Rightarrow> 'e option) \<Rightarrow>
   string \<Rightarrow> string \<Rightarrow> ('att, 'c, 'o) arg list \<Rightarrow>
   'e option \<times> (('att, 'c, 'o) arg, 'e) log_entry list"
where
  "Notify sa sprintf post channel format args =
     (case Notify_loop sa args 0 ([], - 1) of
        (slackAttachments, slackArgsOffset) \<Rightarrow>
          let nonSlackArgs =
                (if slackArgsOffset > - 1 then take (nat slackArgsOffset) args else args);
              err = post channel (sprintf format nonSlackArgs) slackAttachments
          in (err,
              Infof format nonSlackArgs #
                (case err of None \<Rightarrow> [] | Some e \<Rightarrow> [Errorf e])))"

text \<open>
  The words of the specification, for comparison with the loop: an argument is
  attachment-like when the type switch has a case for it, and \<open>as_attachment\<close> is what
  that case appends.
\<close>

fun attachment_like :: "('att, 'c, 'o) arg \<Rightarrow> bool" where
  "attachment_like (Attachment _) = True"
| "attachment_like (Creator _) = True"
| "attachment_like (Other _) = False"

fun as_attachment :: "('c \<Rightarrow> 'att) \<Rightarrow> ('att, 'c, 'o) arg \<Rightarrow> 'att list" where
  "as_attachment sa (Attachment x) = [x]"
| "as_attachment sa (Creator c) = [sa c]"
| "as_attachment sa (Other _) = []"

section \<open>Package bybit: the event envelope\<close>

text \<open>
  Types of other packages: \<open>fixedpoint.Value\<close> is a fixed-point number, held here as its
  integer representation; \<open>types.MillisecondTimestamp\<close> and \<open>types.Time\<close> are both
  named types over \<open>time.Time\<close>, so the conversions \<open>k.StartTime.Time()\<close> and
  \<open>types.Time(...)\<close> change the type and not the instant: one type \<open>Time\<close> (milliseconds)
  stands for the three. A Go slice is a list; \<open>nil\<close> and the empty slice are both \<open>[]\<close>.
\<close>

type_synonym Value = int
type_synonym Time = int
type_synonym WsOpType = string
type_synonym TopicType = string
type_synonym DataType = string

definition WsOpTypePing :: WsOpType where "WsOpTypePing = ''ping''"
definition WsOpTypePong :: WsOpType where "WsOpTypePong = ''pong''"
definition WsOpTypeAuth :: WsOpType where "WsOpTypeAuth = ''auth''"
definition WsOpTypeSubscribe :: WsOpType where "WsOpTypeSubscribe = ''subscribe''"

record WebSocketOpEvent =
  Success :: bool
  RetMsg :: string
  ReqId :: string
  ConnId :: string
  Op :: WsOpType
  Args :: "string list"

record WebSocketTopicEvent =
  Topic :: string
  Type :: DataType
  Ts :: Time
  Data :: string

text \<open>
  \<open>WsEvent\<close> embeds two pointers; a \<open>nil\<close> pointer is \<open>None\<close>. The fields carry the
  names of the embedded types.
\<close>

record WsEvent =
  WebSocketOpEvent :: "WebSocketOpEvent option"
  WebSocketTopicEvent :: "WebSocketTopicEvent option"

definition IsOp :: "WsEvent \<Rightarrow> bool" where
  "IsOp w = (WebSocketOpEvent w \<noteq> None \<and> WebSocketTopicEvent w = None)"

definition IsTopic :: "WsEvent \<Rightarrow> bool" where
  "IsTopic w = (WebSocketOpEvent w = None \<and> WebSocketTopicEvent w \<noteq> None)"

section \<open>Package bybit: payloads\<close>

record PriceVolume =
  Price :: Value
  Volume :: Value

type_synonym PriceVolumeSlice = "PriceVolume list"

record BookEvent =
  Symbol :: string
  Bids :: PriceVolumeSlice
  Asks :: PriceVolumeSlice
  UpdateId :: Value
  SequenceId :: Value
  Type :: DataType

text \<open>
  \<open>types.SliceOrderBook\<close> is declared in package types. The code names its fields
  \<open>Symbol\<close>, \<open>Bids\<close> and \<open>Asks\<close>; whatever else the struct holds is the record's
  extension \<open>'r\<close>.
\<close>

record SliceOrderBook =
  Symbol :: string
  Bids :: PriceVolumeSlice
  Asks :: PriceVolumeSlice

text \<open>
  \<open>OrderBook\<close> has the named result \<open>snapshot\<close>, which Go initialises to the zero value
  of its type: the parameter \<open>zero\<close>. Three assignments follow.
\<close>

definition OrderBook :: "'r SliceOrderBook_scheme \<Rightarrow> BookEvent \<Rightarrow> 'r SliceOrderBook_scheme" where
  "OrderBook zero e =
     (let snapshot = zero;
          snapshot = snapshot\<lparr>SliceOrderBook.Symbol := BookEvent.Symbol e\<rparr>;
          snapshot = snapshot\<lparr>SliceOrderBook.Bids := BookEvent.Bids e\<rparr>;
          snapshot = snapshot\<lparr>SliceOrderBook.Asks := BookEvent.Asks e\<rparr>
      in snapshot)"

record KLine =
  StartTime :: Time
  EndTime :: Time
  Interval :: string
  OpenPrice :: Value
  ClosePrice :: Value
  HighPrice :: Value
  LowPrice :: Value
  Volume :: Value
  Turnover :: Value
  Confirm :: bool
  Timestamp :: Time

text \<open>
  \<open>types.KLine\<close> is declared in package types, as are \<open>types.Interval\<close> (\<open>'i\<close>) and
  \<open>types.ExchangeName\<close> (\<open>'x\<close>). The fields are those the composite literal of
  \<open>toGlobalKLine\<close> names; whatever else the struct holds is the extension \<open>'r\<close>.
\<close>

record ('x, 'i) types_KLine =
  Exchange :: 'x
  Symbol :: string
  StartTime :: Time
  EndTime :: Time
  Interval :: 'i
  Open :: Value
  Close :: Value
  High :: Value
  Low :: Value
  Volume :: Value
  QuoteVolume :: Value
  Closed :: bool

section \<open>Package bybit: errors\<close>

text \<open>
  Every error of the package is made by \<open>fmt.Errorf\<close> from a fixed message and one
  value printed with \<open>%+v\<close> or \<open>%s\<close>; a constructor stands for the message and carries
  the value.
\<close>

datatype error =
    UnexpectedResponseResult WebSocketOpEvent
  | UnexpectedOpType WebSocketOpEvent
  | UnexpectedTopic string
  | UnexpectedKLineInterval KLine

section \<open>Package bybit: validating an operation event\<close>

text \<open>The \<open>switch w.Op\<close>, its cases in the order of the source; \<open>None\<close> is \<open>nil\<close>.\<close>

definition IsValid :: "WebSocketOpEvent \<Rightarrow> error option" where
  "IsValid w =
     (if Op w = WsOpTypePing then
        (if \<not> Success w \<or> RetMsg w \<noteq> WsOpTypePong then Some (UnexpectedResponseResult w)
         else None)
      else if Op w = WsOpTypePong then None
      else if Op w = WsOpTypeAuth then
        (if \<not> Success w \<or> RetMsg w \<noteq> [] then Some (UnexpectedResponseResult w)
         else None)
      else if Op w = WsOpTypeSubscribe then
        (if \<not> Success w then Some (UnexpectedResponseResult w)
         else None)
      else Some (UnexpectedOpType w))"

section \<open>Package bybit: candles\<close>

text \<open>
  \<open>toGlobalKLine\<close>. Three declarations of other packages are parameters: the table
  \<open>bybitapi.ToGlobalInterval\<close> (a Go map, so a lookup answers the value and whether it
  was found), the constant \<open>types.ExchangeBybit\<close>, and \<open>zero\<close>, the value of the empty
  composite literal \<open>types.KLine{}\<close>. A composite literal that names some fields leaves
  the others at their zero values. The result is the pair (types.KLine, error).
\<close>

definition toGlobalKLine ::
  "(string \<rightharpoonup> 'i) \<Rightarrow> 'x \<Rightarrow> ('x, 'i, 'r) types_KLine_scheme \<Rightarrow> KLine \<Rightarrow> string \<Rightarrow>
   ('x, 'i, 'r) types_KLine_scheme \<times> error option"
where
  "toGlobalKLine ToGlobalInterval ExchangeBybit zero k symbol =
     (case ToGlobalInterval (KLine.Interval k) of
        None \<Rightarrow> (zero, Some (UnexpectedKLineInterval k))
      | Some interval \<Rightarrow>
          (zero\<lparr>Exchange := ExchangeBybit,
                types_KLine.Symbol := symbol,
                types_KLine.StartTime := KLine.StartTime k,
                types_KLine.EndTime := KLine.EndTime k,
                types_KLine.Interval := interval,
                Open := OpenPrice k,
                Close := ClosePrice k,
                High := HighPrice k,
                Low := LowPrice k,
                types_KLine.Volume := KLine.Volume k,
                QuoteVolume := Turnover k,
                Closed := Confirm k\<rparr>,
           None))"

section \<open>Package bybit: topic keys\<close>

definition topicSeparator :: char where
  "topicSeparator = CHR ''.''"

text \<open>
  \<open>genTopic\<close> renders every part with \<open>fmt.Sprintf("%v", v)\<close> and joins the results.
  The parts are values of any type; their rendering is the parameter \<open>sprintf_v\<close>.
  For a part that is a Go string, \<open>%v\<close> prints the string itself (\<open>sprintf_v_string\<close>).
\<close>

definition genTopic :: "('a \<Rightarrow> string) \<Rightarrow> 'a list \<Rightarrow> string" where
  "genTopic sprintf_v ins = Join (map sprintf_v ins) [topicSeparator]"

definition sprintf_v_string :: "string \<Rightarrow> string" where
  "sprintf_v_string s = s"

text \<open>
  \<open>getTopicType\<close>: \<open>None\<close> is a panic of the index expression \<open>slice[0]\<close>.
\<close>

definition getTopicType :: "string \<Rightarrow> TopicType option" where
  "getTopicType topic =
     (let slice = Split topic topicSeparator in
      if length slice = 0 then Some []
      else go_index slice 0)"

text \<open>
  \<open>getSymbolFromTopic\<close> returns the pair (string, error) of the source, the error being
  \<open>None\<close> for Go's \<open>nil\<close>; the outer \<open>None\<close> is a panic of \<open>slice[2]\<close>.
\<close>

definition getSymbolFromTopic :: "string \<Rightarrow> (string \<times> error option) option" where
  "getSymbolFromTopic topic =
     (let slice = Split topic topicSeparator in
      if length slice \<noteq> 3 then Some ([], Some (UnexpectedTopic topic))
      else map_option (\<lambda>s. (s, None)) (go_index slice 2))"

section \<open>Properties of \<open>Split\<close> and \<open>Join\<close>\<close>

lemma Split_no_sep:
  assumes "sep \<notin> set s"
  shows "Split s sep = [s]"
proof -
  from assms have d: "dropWhile (\<lambda>c. c \<noteq> sep) s = []"
    by auto
  show ?thesis
    by (subst Split.simps) (simp only: d list.case)
qed

lemma Split_append_sep:
  assumes "sep \<notin> set a"
  shows "Split (a @ sep # r) sep = a # Split r sep"
proof -
  from assms have all: "\<And>x. x \<in> set a \<Longrightarrow> x \<noteq> sep"
    by auto
  have d: "dropWhile (\<lambda>c. c \<noteq> sep) (a @ sep # r) = sep # r"
    using all by (simp add: dropWhile_append2)
  have t: "takeWhile (\<lambda>c. c \<noteq> sep) (a @ sep # r) = a"
    using all by (simp add: takeWhile_append2)
  show ?thesis
    by (subst Split.simps) (simp add: d t)
qed

lemma Split_first:
  "\<exists>rest. Split s sep = takeWhile (\<lambda>c. c \<noteq> sep) s # rest"
proof (cases "dropWhile (\<lambda>c. c \<noteq> sep) s")
  case Nil
  then have t: "takeWhile (\<lambda>c. c \<noteq> sep) s = s"
    by auto
  show ?thesis
    by (subst Split.simps) (simp only: Nil t list.case, blast)
next
  case (Cons x r)
  show ?thesis
    by (subst Split.simps) (simp only: Cons list.case, blast)
qed

lemma Split_not_Nil: "Split s sep \<noteq> []"
  using Split_first [of s sep] by auto

text \<open>
  The number of segments is one more than the number of separators in the string, and
  joining the segments gives the string back: \<open>Split\<close> loses nothing.
\<close>

lemma length_Split: "length (Split s sep) = Suc (count_list s sep)"
proof (induction s sep rule: Split.induct)
  case (1 s sep)
  show ?case
  proof (cases "dropWhile (\<lambda>c. c \<noteq> sep) s")
    case Nil
    then have "sep \<notin> set s"
      by auto
    then have c: "count_list s sep = 0"
      by (simp add: count_list_0_iff)
    have "Split s sep = [s]"
      by (subst Split.simps) (simp only: Nil list.case)
    with c show ?thesis
      by simp
  next
    case (Cons x r)
    have x: "x = sep"
      using hd_dropWhile [of "\<lambda>c. c \<noteq> sep" s] Cons by auto
    have s: "s = takeWhile (\<lambda>c. c \<noteq> sep) s @ sep # r"
      using takeWhile_dropWhile_id [of "\<lambda>c. c \<noteq> sep" s] Cons x by simp
    have "sep \<notin> set (takeWhile (\<lambda>c. c \<noteq> sep) s)"
      by (auto dest: set_takeWhileD)
    then have "count_list (takeWhile (\<lambda>c. c \<noteq> sep) s) sep = 0"
      by (simp add: count_list_0_iff)
    then have "count_list s sep = Suc (count_list r sep)"
      by (subst s) simp
    moreover have "length (Split s sep) = Suc (length (Split r sep))"
      by (subst Split.simps) (simp only: Cons list.case length_Cons)
    ultimately show ?thesis
      using "1.IH" [OF Cons] by simp
  qed
qed

lemma Join_Cons: "ys \<noteq> [] \<Longrightarrow> Join (x # ys) sep = x @ sep @ Join ys sep"
  by (cases ys) simp_all

lemma Join_Split: "Join (Split s sep) [sep] = s"
proof (induction s sep rule: Split.induct)
  case (1 s sep)
  show ?case
  proof (cases "dropWhile (\<lambda>c. c \<noteq> sep) s")
    case Nil
    have "Split s sep = [s]"
      by (subst Split.simps) (simp only: Nil list.case)
    then show ?thesis
      by simp
  next
    case (Cons x r)
    have x: "x = sep"
      using hd_dropWhile [of "\<lambda>c. c \<noteq> sep" s] Cons by auto
    have s: "takeWhile (\<lambda>c. c \<noteq> sep) s @ sep # r = s"
      using takeWhile_dropWhile_id [of "\<lambda>c. c \<noteq> sep" s] Cons x by simp
    have "Split s sep = takeWhile (\<lambda>c. c \<noteq> sep) s # Split r sep"
      by (subst Split.simps) (simp only: Cons list.case)
    then have "Join (Split s sep) [sep] = takeWhile (\<lambda>c. c \<noteq> sep) s @ [sep] @ Join (Split r sep) [sep]"
      by (simp add: Join_Cons Split_not_Nil)
    also have "\<dots> = takeWhile (\<lambda>c. c \<noteq> sep) s @ sep # r"
      using "1.IH" [OF Cons] by simp
    finally show ?thesis
      using s by simp
  qed
qed


text \<open>
  \<open>Split\<close> undoes \<open>Join\<close> on a non-empty list of parts that are free of the separator.
\<close>

lemma Split_Join:
  assumes "xs \<noteq> []" and "\<forall>x \<in> set xs. sep \<notin> set x"
  shows "Split (Join xs [sep]) sep = xs"
  using assms
proof (induction xs)
  case Nil
  then show ?case by simp
next
  case (Cons x xs)
  show ?case
  proof (cases xs)
    case Nil
    with Cons.prems show ?thesis
      by (simp add: Split_no_sep)
  next
    case (Cons y ys)
    with Cons.IH Cons.prems have "Split (Join xs [sep]) sep = xs"
      by simp
    with Cons Cons.prems show ?thesis
      by (simp add: Split_append_sep)
  qed
qed

lemma takeWhile_before_sep:
  "sep \<notin> set a \<Longrightarrow> takeWhile (\<lambda>c. c \<noteq> sep) (a @ sep # r) = a"
  by (induction a) auto

section \<open>Properties of the topic codec\<close>

lemma go_index_Split_0:
  "go_index (Split s sep) 0 = Some (takeWhile (\<lambda>c. c \<noteq> sep) s)"
proof -
  obtain rest where "Split s sep = takeWhile (\<lambda>c. c \<noteq> sep) s # rest"
    using Split_first by blast
  then show ?thesis
    by (simp add: go_index_def)
qed

lemma getTopicType_eq: "getTopicType t = Some (takeWhile (\<lambda>c. c \<noteq> CHR ''.'') t)"
  by (simp add: getTopicType_def Let_def Split_not_Nil go_index_Split_0 topicSeparator_def)

lemma getSymbolFromTopic_eq:
  "getSymbolFromTopic t =
     (if length (Split t CHR ''.'') = 3 then Some (Split t CHR ''.'' ! 2, None)
      else Some ([], Some (UnexpectedTopic t)))"
  by (simp add: getSymbolFromTopic_def Let_def go_index_def topicSeparator_def)

lemma genTopic_3:
  "genTopic f [a, b, c] = f a @ ''.'' @ f b @ ''.'' @ f c"
  by (simp add: genTopic_def topicSeparator_def)

lemma Split_3:
  assumes "sep \<notin> set a" and "sep \<notin> set b" and "sep \<notin> set c"
  shows "Split (a @ [sep] @ b @ [sep] @ c) sep = [a, b, c]"
  using assms by (simp add: Split_append_sep Split_no_sep)

text \<open>
  C3. For every topic \<open>t\<close>, \<open>getSymbolFromTopic t\<close> succeeds (returns a \<open>nil\<close> error, without
  a panic) if and only if splitting \<open>t\<close> on "." gives exactly 3 segments; it then returns
  the third segment, and for any other number of segments it returns the empty string
  and an error. In particular "orderbook.1.BTCUSDT" gives "BTCUSDT" and
  "orderbook.BTCUSDT" fails.
\<close>

theorem getSymbolFromTopic_three_segments:
  "((\<exists>s. getSymbolFromTopic t = Some (s, None)) = (length (Split t CHR ''.'') = 3))
   \<and> (length (Split t CHR ''.'') = 3 \<longrightarrow>
        getSymbolFromTopic t = Some (Split t CHR ''.'' ! 2, None))
   \<and> (length (Split t CHR ''.'') \<noteq> 3 \<longrightarrow>
        getSymbolFromTopic t = Some ([], Some (UnexpectedTopic t)))
   \<and> getSymbolFromTopic ''orderbook.1.BTCUSDT'' = Some (''BTCUSDT'', None)
   \<and> getSymbolFromTopic ''orderbook.BTCUSDT''
       = Some ([], Some (UnexpectedTopic ''orderbook.BTCUSDT''))"
proof -
  have s1: "Split ''orderbook.1.BTCUSDT'' CHR ''.'' = [''orderbook'', ''1'', ''BTCUSDT'']"
    using Split_3 [of "CHR ''.''" "''orderbook''" "''1''" "''BTCUSDT''"] by simp
  have s2: "Split ''orderbook.BTCUSDT'' CHR ''.'' = [''orderbook'', ''BTCUSDT'']"
    using Split_append_sep [of "CHR ''.''" "''orderbook''" "''BTCUSDT''"]
    by (simp add: Split_no_sep)
  have e1: "getSymbolFromTopic ''orderbook.1.BTCUSDT'' = Some (''BTCUSDT'', None)"
    by (simp only: getSymbolFromTopic_eq s1) simp
  have e2: "getSymbolFromTopic ''orderbook.BTCUSDT''
       = Some ([], Some (UnexpectedTopic ''orderbook.BTCUSDT''))"
    by (simp only: getSymbolFromTopic_eq s2) simp
  have g: "((\<exists>s. getSymbolFromTopic t = Some (s, None)) = (length (Split t CHR ''.'') = 3))
   \<and> (length (Split t CHR ''.'') = 3 \<longrightarrow>
        getSymbolFromTopic t = Some (Split t CHR ''.'' ! 2, None))
   \<and> (length (Split t CHR ''.'') \<noteq> 3 \<longrightarrow>
        getSymbolFromTopic t = Some ([], Some (UnexpectedTopic t)))"
    by (simp add: getSymbolFromTopic_eq)
  from g e1 e2 show ?thesis by blast
qed

text \<open>The theorem at a topic of three segments and at a topic of one.\<close>

theorem getSymbolFromTopic_three_segments_witness:
  "length (Split ''kline.5.ETHUSDT'' CHR ''.'') = 3
   \<and> getSymbolFromTopic ''kline.5.ETHUSDT'' = Some (''ETHUSDT'', None)
   \<and> length (Split ''wallet'' CHR ''.'') \<noteq> 3
   \<and> getSymbolFromTopic ''wallet'' = Some ([], Some (UnexpectedTopic ''wallet''))"
proof -
  have s1: "Split ''kline.5.ETHUSDT'' CHR ''.'' = [''kline'', ''5'', ''ETHUSDT'']"
    using Split_3 [of "CHR ''.''" "''kline''" "''5''" "''ETHUSDT''"] by simp
  have s2: "Split ''wallet'' CHR ''.'' = [''wallet'']"
    by (simp add: Split_no_sep)
  show ?thesis
    using getSymbolFromTopic_three_segments [of "''kline.5.ETHUSDT''"]
      getSymbolFromTopic_three_segments [of "''wallet''"]
    by (simp add: s1 s2)
qed

text \<open>
  C4. \<open>genTopic\<close> joins its rendered parts with "."; for all strings \<open>a\<close>, \<open>b\<close>, \<open>c\<close>
  that contain no ".", parsing \<open>genTopic(a, b, c)\<close> gives the symbol \<open>c\<close> back with a
  \<open>nil\<close> error and the topic type \<open>a\<close>; and \<open>genTopic("orderbook", "1", "BTCUSDT")\<close> is
  "orderbook.1.BTCUSDT".
\<close>

theorem genTopic_round_trip:
  "genTopic sprintf_v ins = Join (map sprintf_v ins) ''.''
   \<and> (CHR ''.'' \<notin> set a \<and> CHR ''.'' \<notin> set b \<and> CHR ''.'' \<notin> set c \<longrightarrow>
        getSymbolFromTopic (genTopic sprintf_v_string [a, b, c]) = Some (c, None)
        \<and> getTopicType (genTopic sprintf_v_string [a, b, c]) = Some a)
   \<and> genTopic sprintf_v_string [''orderbook'', ''1'', ''BTCUSDT''] = ''orderbook.1.BTCUSDT''"
proof -
  have j: "genTopic sprintf_v ins = Join (map sprintf_v ins) ''.''"
    by (simp add: genTopic_def topicSeparator_def)
  have r: "getSymbolFromTopic (genTopic sprintf_v_string [a, b, c]) = Some (c, None)
        \<and> getTopicType (genTopic sprintf_v_string [a, b, c]) = Some a"
    if n: "CHR ''.'' \<notin> set a" "CHR ''.'' \<notin> set b" "CHR ''.'' \<notin> set c"
  proof -
    have g: "genTopic sprintf_v_string [a, b, c] = a @ [CHR ''.''] @ b @ [CHR ''.''] @ c"
      by (simp add: genTopic_3 sprintf_v_string_def)
    have s: "Split (a @ [CHR ''.''] @ b @ [CHR ''.''] @ c) CHR ''.'' = [a, b, c]"
      using n by (rule Split_3)
    have t: "takeWhile (\<lambda>x. x \<noteq> CHR ''.'') (a @ [CHR ''.''] @ b @ [CHR ''.''] @ c) = a"
      using n(1) by (simp add: takeWhile_before_sep)
    show ?thesis
      by (simp only: g getSymbolFromTopic_eq getTopicType_eq s t) simp
  qed
  have e: "genTopic sprintf_v_string [''orderbook'', ''1'', ''BTCUSDT''] = ''orderbook.1.BTCUSDT''"
    by (simp add: genTopic_3 sprintf_v_string_def)
  from j r e show ?thesis by blast
qed

text \<open>The round trip at the parts "kline", "5" and "ETHUSDT".\<close>

theorem genTopic_round_trip_witness:
  "CHR ''.'' \<notin> set ''kline'' \<and> CHR ''.'' \<notin> set ''5'' \<and> CHR ''.'' \<notin> set ''ETHUSDT''
   \<and> getSymbolFromTopic (genTopic sprintf_v_string [''kline'', ''5'', ''ETHUSDT''])
       = Some (''ETHUSDT'', None)
   \<and> getTopicType (genTopic sprintf_v_string [''kline'', ''5'', ''ETHUSDT'']) = Some ''kline''"
  using genTopic_round_trip [of sprintf_v_string "[]" "''kline''" "''5''" "''ETHUSDT''"]
  by simp

text \<open>
  C6. For every topic \<open>t\<close>, \<open>getTopicType t\<close> returns without a panic, and what it returns
  is the first "."-separated segment of \<open>t\<close>: the bytes of \<open>t\<close> before the first ".",
  which is all of \<open>t\<close> when \<open>t\<close> has no ".". In particular "kline.5.ETHUSDT" gives
  "kline" and the empty topic gives the empty string.
\<close>

theorem getTopicType_first_segment:
  "getTopicType t = Some (takeWhile (\<lambda>c. c \<noteq> CHR ''.'') t)
   \<and> getTopicType t = Some (hd (Split t CHR ''.''))
   \<and> (CHR ''.'' \<notin> set t \<longrightarrow> getTopicType t = Some t)
   \<and> getTopicType ''kline.5.ETHUSDT'' = Some ''kline''
   \<and> getTopicType '''' = Some ''''"
proof -
  obtain rest where "Split t CHR ''.'' = takeWhile (\<lambda>c. c \<noteq> CHR ''.'') t # rest"
    using Split_first by blast
  then have h: "hd (Split t CHR ''.'') = takeWhile (\<lambda>c. c \<noteq> CHR ''.'') t"
    by simp
  have n: "getTopicType t = Some t" if "CHR ''.'' \<notin> set t"
    using that by (auto simp: getTopicType_eq)
  have e1: "getTopicType ''kline.5.ETHUSDT'' = Some ''kline''"
    by (simp add: getTopicType_eq)
  have e2: "getTopicType '''' = Some ''''"
    by (simp add: getTopicType_eq)
  from h n e1 e2 show ?thesis
    by (simp add: getTopicType_eq)
qed

text \<open>A topic without a separator is its own type.\<close>

theorem getTopicType_first_segment_witness:
  "CHR ''.'' \<notin> set ''wallet'' \<and> getTopicType ''wallet'' = Some ''wallet''"
  using getTopicType_first_segment [of "''wallet''"] by simp

text \<open>
  C10. \<open>getSymbolFromTopic\<close> checks the number of segments and never their content. It
  returns a \<open>nil\<close> error exactly when the topic splits into 3 segments, that is when it
  holds exactly two "."; two topics with the same number of segments are both accepted or
  both refused; with 3 segments the symbol is the third segment whatever the segments
  hold, and with any other number the result is the empty string and an error. For any
  three parts free of ".", empty or not, the third comes back as the symbol; so an empty
  symbol is returned for "a.b." and for "..", with a \<open>nil\<close> error.
\<close>

theorem getSymbolFromTopic_empty_symbol:
  "((\<exists>s. getSymbolFromTopic t = Some (s, None)) = (length (Split t CHR ''.'') = 3))
   \<and> ((\<exists>s. getSymbolFromTopic t = Some (s, None)) = (count_list t CHR ''.'' = 2))
   \<and> (length (Split t CHR ''.'') = length (Split t' CHR ''.'') \<longrightarrow>
        (\<exists>s. getSymbolFromTopic t = Some (s, None))
          = (\<exists>s. getSymbolFromTopic t' = Some (s, None)))
   \<and> (length (Split t CHR ''.'') = 3 \<longrightarrow>
        getSymbolFromTopic t = Some (Split t CHR ''.'' ! 2, None))
   \<and> (length (Split t CHR ''.'') \<noteq> 3 \<longrightarrow>
        getSymbolFromTopic t = Some ([], Some (UnexpectedTopic t)))
   \<and> (length (Split t CHR ''.'') = 3 \<longrightarrow> (\<exists>s. getSymbolFromTopic t = Some (s, None)))
   \<and> (CHR ''.'' \<notin> set a \<and> CHR ''.'' \<notin> set b \<and> CHR ''.'' \<notin> set c \<longrightarrow>
        getSymbolFromTopic (a @ ''.'' @ b @ ''.'' @ c) = Some (c, None))
   \<and> (CHR ''.'' \<notin> set a \<and> CHR ''.'' \<notin> set b \<longrightarrow>
        getSymbolFromTopic (a @ ''.'' @ b @ ''.'') = Some ('''', None))
   \<and> getSymbolFromTopic ''a.b.'' = Some ('''', None)
   \<and> getSymbolFromTopic ''..'' = Some ('''', None)"
proof -
  have i: "(\<exists>s. getSymbolFromTopic u = Some (s, None)) = (length (Split u CHR ''.'') = 3)"
    for u
    by (simp add: getSymbolFromTopic_eq)
  have n: "(\<exists>s. getSymbolFromTopic t = Some (s, None)) = (count_list t CHR ''.'' = 2)"
    by (simp add: i length_Split)
  have d: "(\<exists>s. getSymbolFromTopic t = Some (s, None))
          = (\<exists>s. getSymbolFromTopic t' = Some (s, None))"
    if "length (Split t CHR ''.'') = length (Split t' CHR ''.'')"
    using that by (simp only: i)
  have c3: "getSymbolFromTopic t = Some (Split t CHR ''.'' ! 2, None)"
    if "length (Split t CHR ''.'') = 3"
    using that by (simp add: getSymbolFromTopic_eq)
  have r: "getSymbolFromTopic t = Some ([], Some (UnexpectedTopic t))"
    if "length (Split t CHR ''.'') \<noteq> 3"
    using that by (simp add: getSymbolFromTopic_eq)
  have q: "getSymbolFromTopic (u @ ''.'' @ v @ ''.'' @ w) = Some (w, None)"
    if "CHR ''.'' \<notin> set u" "CHR ''.'' \<notin> set v" "CHR ''.'' \<notin> set w" for u v w
  proof -
    have "Split (u @ [CHR ''.''] @ v @ [CHR ''.''] @ w) CHR ''.'' = [u, v, w]"
      using that by (rule Split_3)
    then have "Split (u @ ''.'' @ v @ ''.'' @ w) CHR ''.'' = [u, v, w]"
      by simp
    then show ?thesis
      by (simp only: getSymbolFromTopic_eq) simp
  qed
  have p: "getSymbolFromTopic (u @ ''.'' @ v @ ''.'') = Some ('''', None)"
    if "CHR ''.'' \<notin> set u" "CHR ''.'' \<notin> set v" for u v
    using q [of u v "''''"] that by simp
  have e1: "getSymbolFromTopic ''a.b.'' = Some ('''', None)"
    using p [of "''a''" "''b''"] by simp
  have e2: "getSymbolFromTopic ''..'' = Some ('''', None)"
    using p [of "''''" "''''"] by simp
  from i [of t] n d c3 r q p e1 e2 show ?thesis by blast
qed

text \<open>
  Topics of three segments with empty or odd segments are accepted along with
  "kline.5.ETHUSDT"; topics of two and of four segments are refused.
\<close>

theorem getSymbolFromTopic_empty_symbol_witness:
  "length (Split ''.x.'' CHR ''.'') = 3
   \<and> getSymbolFromTopic ''.x.'' = Some ('''', None)
   \<and> length (Split ''.x.'' CHR ''.'') = length (Split ''kline.5.ETHUSDT'' CHR ''.'')
   \<and> (\<exists>s. getSymbolFromTopic ''kline.5.ETHUSDT'' = Some (s, None))
   \<and> length (Split ''x.y'' CHR ''.'') \<noteq> 3
   \<and> getSymbolFromTopic ''x.y'' = Some ([], Some (UnexpectedTopic ''x.y''))
   \<and> length (Split ''a.b.c.d'' CHR ''.'') \<noteq> 3
   \<and> getSymbolFromTopic ''a.b.c.d'' = Some ([], Some (UnexpectedTopic ''a.b.c.d''))
   \<and> CHR ''.'' \<notin> set ''order'' \<and> CHR ''.'' \<notin> set '''' \<and> CHR ''.'' \<notin> set '' !''
   \<and> getSymbolFromTopic ''order.. !'' = Some ('' !'', None)
   \<and> getSymbolFromTopic ''order..'' = Some ('''', None)"
proof -
  have s1: "Split ''.x.'' CHR ''.'' = ['''', ''x'', '''']"
    using Split_3 [of "CHR ''.''" "''''" "''x''" "''''"] by simp
  have s2: "Split ''kline.5.ETHUSDT'' CHR ''.'' = [''kline'', ''5'', ''ETHUSDT'']"
    using Split_3 [of "CHR ''.''" "''kline''" "''5''" "''ETHUSDT''"] by simp
  have s3: "length (Split ''x.y'' CHR ''.'') = 2"
    by (simp add: length_Split)
  have s4: "length (Split ''a.b.c.d'' CHR ''.'') = 4"
    by (simp add: length_Split)
  show ?thesis
    using getSymbolFromTopic_empty_symbol
        [of "''.x.''" "''kline.5.ETHUSDT''" "''order''" "''''" "'' !''"]
      getSymbolFromTopic_empty_symbol [of "''x.y''" "''x.y''" "''order''" "''''" "''''"]
      getSymbolFromTopic_empty_symbol [of "''a.b.c.d''" "''x.y''" "''order''" "''''" "''''"]
    by (auto simp: s1 s2 s3 s4)
qed

section \<open>Properties of \<open>Notify\<close>\<close>

text \<open>
  The loop appends what \<open>as_attachment\<close> gives for each argument; once the offset is
  set it stays; starting from \<open>- 1\<close> at a non-negative index, it ends as the index of the
  first attachment-like argument, or \<open>- 1\<close> when there is none.
\<close>

lemma Notify_loop_attachments:
  "fst (Notify_loop sa args idx (atts, off)) = atts @ concat (map (as_attachment sa) args)"
proof (induction args arbitrary: idx atts off)
  case Nil
  then show ?case by simp
next
  case (Cons a args)
  show ?case
    by (cases a) (simp_all add: Cons.IH)
qed

lemma Notify_loop_offset_set:
  "off \<noteq> - 1 \<Longrightarrow> snd (Notify_loop sa args idx (atts, off)) = off"
proof (induction args arbitrary: idx atts)
  case Nil
  then show ?case by simp
next
  case (Cons a args)
  then show ?case
    by (cases a) simp_all
qed

lemma Notify_loop_offset:
  assumes "0 \<le> idx"
  shows "snd (Notify_loop sa args idx (atts, - 1)) =
     (if \<exists>a \<in> set args. attachment_like a
      then idx + int (length (takeWhile (\<lambda>a. \<not> attachment_like a) args))
      else - 1)"
  using assms
proof (induction args arbitrary: idx atts)
  case Nil
  then show ?case by simp
next
  case (Cons a args)
  show ?case
  proof (cases a)
    case (Attachment x)
    with Cons.prems show ?thesis
      by (simp add: Notify_loop_offset_set)
  next
    case (Creator c)
    with Cons.prems show ?thesis
      by (simp add: Notify_loop_offset_set)
  next
    case (Other z)
    from Cons.prems have "0 \<le> idx + 1" by simp
    from Cons.IH [OF this] Other show ?thesis
      by simp
  qed
qed

lemma nonSlackArgs_prefix:
  "(if (if \<exists>a \<in> set args. attachment_like a
        then int (length (takeWhile (\<lambda>a. \<not> attachment_like a) args))
        else - 1) > - 1
    then take (nat (if \<exists>a \<in> set args. attachment_like a
        then int (length (takeWhile (\<lambda>a. \<not> attachment_like a) args))
        else - 1)) args
    else args) = takeWhile (\<lambda>a. \<not> attachment_like a) args"
proof (cases "\<exists>a \<in> set args. attachment_like a")
  case True
  then show ?thesis
    using takeWhile_eq_take [of "\<lambda>a. \<not> attachment_like a" args] by simp
next
  case False
  then have t: "takeWhile (\<lambda>a. \<not> attachment_like a) args = args"
    by simp
  from False show ?thesis
    by (simp add: t)
qed

lemma as_attachment_filter:
  "concat (map (as_attachment sa) args)
     = concat (map (as_attachment sa) (filter attachment_like args))"
proof (induction args)
  case Nil
  then show ?case by simp
next
  case (Cons a args)
  then show ?case by (cases a) simp_all
qed

lemma as_attachment_length:
  "length (concat (map (as_attachment sa) args)) = length (filter attachment_like args)"
proof (induction args)
  case Nil
  then show ?case by simp
next
  case (Cons a args)
  then show ?case by (cases a) simp_all
qed

text \<open>
  C7. For every call of \<open>Notify\<close>, the attachments posted are, in the order of the
  arguments, those arguments that are a \<open>slack.Attachment\<close> or a
  \<open>SlackAttachmentCreator\<close> (the latter through \<open>SlackAttachment()\<close>), wherever they
  stand; and the arguments given to the format string are the arguments before the
  first such argument, all of them when there is none. Arguments of another kind that
  come after the first attachment-like one are not formatted.
\<close>

theorem Notify_partitions_args:
  "Notify sa sprintf post channel format args =
     (let nonSlackArgs = takeWhile (\<lambda>a. \<not> attachment_like a) args;
          err = post channel (sprintf format nonSlackArgs)
                  (concat (map (as_attachment sa) (filter attachment_like args)))
      in (err, Infof format nonSlackArgs # (case err of None \<Rightarrow> [] | Some e \<Rightarrow> [Errorf e])))"
proof -
  obtain atts off where l: "Notify_loop sa args 0 ([], - 1) = (atts, off)"
    by (cases "Notify_loop sa args 0 ([], - 1)")
  have a: "atts = concat (map (as_attachment sa) (filter attachment_like args))"
    using Notify_loop_attachments [of sa args 0 "[]" "- 1"] l
    by (simp add: as_attachment_filter [symmetric])
  have o: "off = (if \<exists>a \<in> set args. attachment_like a
        then int (length (takeWhile (\<lambda>a. \<not> attachment_like a) args))
        else - 1)"
    using Notify_loop_offset [of 0 sa args "[]"] l by simp
  have n: "(if off > - 1 then take (nat off) args else args)
      = takeWhile (\<lambda>a. \<not> attachment_like a) args"
    unfolding o by (rule nonSlackArgs_prefix)
  show ?thesis
    by (simp only: Notify_def l prod.case n a Let_def)
qed

text \<open>
  Four arguments, the second and the fourth attachment-like: both are posted, and only
  the first argument reaches the format string.
\<close>

theorem Notify_partitions_args_witness:
  "Notify (\<lambda>c. ''made:'' @ c) (\<lambda>f a. f)
     (\<lambda>c t a. if c = ''ch'' \<and> t = ''%s %s'' \<and> a = [''A1'', ''made:C7''] then None
               else Some ''rejected'')
     ''ch'' ''%s %s''
     [Other ''x'', Attachment ''A1'', Other ''y'', Creator ''C7'']
   = (None, [Infof ''%s %s'' [Other ''x'']])"
  using Notify_partitions_args [of "\<lambda>c. ''made:'' @ c" "\<lambda>f a. f"
     "\<lambda>c t a. if c = ''ch'' \<and> t = ''%s %s'' \<and> a = [''A1'', ''made:C7''] then None
               else Some ''rejected''"
     "''ch''" "''%s %s''" "[Other ''x'', Attachment ''A1'', Other ''y'', Creator ''C7'']"]
  by simp

section \<open>Properties of the envelope, the validator and the adapters\<close>

text \<open>
  C1. For every operation event \<open>w\<close>, \<open>IsValid w\<close> returns no error if and only if the
  operation is "ping" with \<open>Success\<close> true and \<open>RetMsg\<close> "pong", or is "pong", or is
  "auth" with \<open>Success\<close> true and \<open>RetMsg\<close> empty, or is "subscribe" with \<open>Success\<close>
  true; for every other operation it returns the unexpected-operation error.
\<close>

theorem IsValid_nil_iff:
  "(IsValid w = None) =
     (Op w = ''ping'' \<and> Success w \<and> RetMsg w = ''pong''
      \<or> Op w = ''pong''
      \<or> Op w = ''auth'' \<and> Success w \<and> RetMsg w = ''''
      \<or> Op w = ''subscribe'' \<and> Success w)
   \<and> (Op w \<notin> {''ping'', ''pong'', ''auth'', ''subscribe''} \<longrightarrow>
        IsValid w = Some (UnexpectedOpType w))
   \<and> (Op w \<in> {''ping'', ''pong'', ''auth'', ''subscribe''} \<longrightarrow>
        IsValid w = None \<or> IsValid w = Some (UnexpectedResponseResult w))"
  by (simp add: IsValid_def WsOpTypePing_def WsOpTypePong_def WsOpTypeAuth_def
      WsOpTypeSubscribe_def)

text \<open>An unknown operation, and a ping answered with the wrong message.\<close>

theorem IsValid_nil_iff_witness:
  "Op \<lparr>Success = True, RetMsg = ''ok'', ReqId = ''7'', ConnId = ''c1'', Op = ''unknown'',
        Args = []\<rparr> \<notin> {''ping'', ''pong'', ''auth'', ''subscribe''}
   \<and> IsValid \<lparr>Success = True, RetMsg = ''ok'', ReqId = ''7'', ConnId = ''c1'',
        Op = ''unknown'', Args = []\<rparr>
       = Some (UnexpectedOpType \<lparr>Success = True, RetMsg = ''ok'', ReqId = ''7'',
           ConnId = ''c1'', Op = ''unknown'', Args = []\<rparr>)
   \<and> Op \<lparr>Success = True, RetMsg = ''wrong'', ReqId = '''', ConnId = ''c1'', Op = ''ping'',
        Args = []\<rparr> \<in> {''ping'', ''pong'', ''auth'', ''subscribe''}
   \<and> IsValid \<lparr>Success = True, RetMsg = ''wrong'', ReqId = '''', ConnId = ''c1'',
        Op = ''ping'', Args = []\<rparr>
       = Some (UnexpectedResponseResult \<lparr>Success = True, RetMsg = ''wrong'', ReqId = '''',
           ConnId = ''c1'', Op = ''ping'', Args = []\<rparr>)"
  using IsValid_nil_iff [of "\<lparr>Success = True, RetMsg = ''ok'', ReqId = ''7'', ConnId = ''c1'',
        Op = ''unknown'', Args = []\<rparr>"]
    IsValid_nil_iff [of "\<lparr>Success = True, RetMsg = ''wrong'', ReqId = '''', ConnId = ''c1'',
        Op = ''ping'', Args = []\<rparr>"]
  by auto

text \<open>
  C2. For every \<open>WsEvent\<close>, also one with both pointers set or both \<open>nil\<close>, \<open>IsOp\<close> is
  true exactly when the op pointer is set and the topic pointer is \<open>nil\<close>, and \<open>IsTopic\<close>
  exactly when the op pointer is \<open>nil\<close> and the topic pointer is set. So the two are never
  both true, and when exactly one pointer is set exactly one of them is true.
\<close>

theorem IsOp_IsTopic_exclusive:
  "IsOp w = (WebSocketOpEvent w \<noteq> None \<and> WebSocketTopicEvent w = None)
   \<and> IsTopic w = (WebSocketOpEvent w = None \<and> WebSocketTopicEvent w \<noteq> None)
   \<and> \<not> (IsOp w \<and> IsTopic w)
   \<and> ((WebSocketOpEvent w = None) \<noteq> (WebSocketTopicEvent w = None) \<longrightarrow>
        IsOp w \<noteq> IsTopic w)
   \<and> ((WebSocketOpEvent w = None) = (WebSocketTopicEvent w = None) \<longrightarrow>
        \<not> IsOp w \<and> \<not> IsTopic w)"
  by (auto simp: IsOp_def IsTopic_def)

text \<open>A topic frame, and a frame with neither pointer set.\<close>

theorem IsOp_IsTopic_exclusive_witness:
  "(WebSocketOpEvent \<lparr>WebSocketOpEvent = None,
        WebSocketTopicEvent = Some \<lparr>Topic = ''kline.5.ETHUSDT'', Type = ''snapshot'',
          Ts = 1700000000000, Data = ''[]''\<rparr>\<rparr> = None)
     \<noteq> (WebSocketTopicEvent \<lparr>WebSocketOpEvent = None,
        WebSocketTopicEvent = Some \<lparr>Topic = ''kline.5.ETHUSDT'', Type = ''snapshot'',
          Ts = 1700000000000, Data = ''[]''\<rparr>\<rparr> = None)
   \<and> IsTopic \<lparr>WebSocketOpEvent = None,
        WebSocketTopicEvent = Some \<lparr>Topic = ''kline.5.ETHUSDT'', Type = ''snapshot'',
          Ts = 1700000000000, Data = ''[]''\<rparr>\<rparr>
   \<and> \<not> IsOp \<lparr>WebSocketOpEvent = None,
        WebSocketTopicEvent = Some \<lparr>Topic = ''kline.5.ETHUSDT'', Type = ''snapshot'',
          Ts = 1700000000000, Data = ''[]''\<rparr>\<rparr>
   \<and> (WebSocketOpEvent \<lparr>WebSocketOpEvent = None, WebSocketTopicEvent = None\<rparr> = None)
     = (WebSocketTopicEvent \<lparr>WebSocketOpEvent = None, WebSocketTopicEvent = None\<rparr> = None)
   \<and> \<not> IsOp \<lparr>WebSocketOpEvent = None, WebSocketTopicEvent = None\<rparr>
   \<and> \<not> IsTopic \<lparr>WebSocketOpEvent = None, WebSocketTopicEvent = None\<rparr>"
  using IsOp_IsTopic_exclusive [of "\<lparr>WebSocketOpEvent = None,
        WebSocketTopicEvent = Some \<lparr>Topic = ''kline.5.ETHUSDT'', Type = ''snapshot'',
          Ts = 1700000000000, Data = ''[]''\<rparr>\<rparr>"]
    IsOp_IsTopic_exclusive [of "\<lparr>WebSocketOpEvent = None, WebSocketTopicEvent = None\<rparr>"]
  by simp

text \<open>
  C5. For every candle \<open>k\<close> and symbol \<open>s\<close>, \<open>toGlobalKLine\<close> returns an error exactly
  when \<open>k\<close>'s interval has no entry in the translation table, and the candle returned
  with the error is the zero value. When the interval has an entry, the error is \<open>nil\<close>
  and the result has the table's translation as \<open>Interval\<close>, \<open>s\<close> as \<open>Symbol\<close>,
  \<open>k\<close>'s \<open>Confirm\<close> as \<open>Closed\<close>, \<open>k\<close>'s \<open>Turnover\<close> as \<open>QuoteVolume\<close>, and \<open>k\<close>'s open,
  close, high and low prices, volume, start time and end time; its exchange is
  \<open>ExchangeBybit\<close> and every field the literal does not name is zero.
\<close>

theorem toGlobalKLine_interval:
  "(snd (toGlobalKLine tbl ex zero k s) \<noteq> None) = (tbl (KLine.Interval k) = None)
   \<and> (tbl (KLine.Interval k) = None \<longrightarrow>
        toGlobalKLine tbl ex zero k s = (zero, Some (UnexpectedKLineInterval k)))
   \<and> (\<forall>i. tbl (KLine.Interval k) = Some i \<longrightarrow>
        snd (toGlobalKLine tbl ex zero k s) = None
        \<and> types_KLine.Interval (fst (toGlobalKLine tbl ex zero k s)) = i
        \<and> types_KLine.Symbol (fst (toGlobalKLine tbl ex zero k s)) = s
        \<and> Closed (fst (toGlobalKLine tbl ex zero k s)) = Confirm k
        \<and> QuoteVolume (fst (toGlobalKLine tbl ex zero k s)) = Turnover k
        \<and> Open (fst (toGlobalKLine tbl ex zero k s)) = OpenPrice k
        \<and> Close (fst (toGlobalKLine tbl ex zero k s)) = ClosePrice k
        \<and> High (fst (toGlobalKLine tbl ex zero k s)) = HighPrice k
        \<and> Low (fst (toGlobalKLine tbl ex zero k s)) = LowPrice k
        \<and> types_KLine.Volume (fst (toGlobalKLine tbl ex zero k s)) = KLine.Volume k
        \<and> types_KLine.StartTime (fst (toGlobalKLine tbl ex zero k s)) = KLine.StartTime k
        \<and> types_KLine.EndTime (fst (toGlobalKLine tbl ex zero k s)) = KLine.EndTime k
        \<and> Exchange (fst (toGlobalKLine tbl ex zero k s)) = ex
        \<and> types_KLine.more (fst (toGlobalKLine tbl ex zero k s)) = types_KLine.more zero)"
  by (cases "tbl (KLine.Interval k)") (simp_all add: toGlobalKLine_def)

text \<open>
  A table with the one entry "5" to "5m": a five-minute candle is translated, and a
  candle of interval "7" comes back as the zero value.
\<close>

theorem toGlobalKLine_interval_witness:
  "[''5'' \<mapsto> ''5m''] (KLine.Interval
       \<lparr>KLine.StartTime = 1700000000000, EndTime = 1700000299999, Interval = ''5'',
        OpenPrice = 100, ClosePrice = 104, HighPrice = 105, LowPrice = 99, Volume = 12,
        Turnover = 1230, Confirm = True, Timestamp = 1700000299000\<rparr>) = Some ''5m''
   \<and> toGlobalKLine [''5'' \<mapsto> ''5m''] ''bybit''
        \<lparr>Exchange = '''', Symbol = '''', StartTime = 0, EndTime = 0, Interval = '''',
         Open = 0, Close = 0, High = 0, Low = 0, Volume = 0, QuoteVolume = 0,
         Closed = False\<rparr>
        \<lparr>KLine.StartTime = 1700000000000, EndTime = 1700000299999, Interval = ''5'',
         OpenPrice = 100, ClosePrice = 104, HighPrice = 105, LowPrice = 99, Volume = 12,
         Turnover = 1230, Confirm = True, Timestamp = 1700000299000\<rparr>
        ''ETHUSDT''
     = (\<lparr>Exchange = ''bybit'', Symbol = ''ETHUSDT'', StartTime = 1700000000000,
         EndTime = 1700000299999, Interval = ''5m'', Open = 100, Close = 104, High = 105,
         Low = 99, Volume = 12, QuoteVolume = 1230, Closed = True\<rparr>, None)
   \<and> [''5'' \<mapsto> ''5m''] (KLine.Interval
       \<lparr>KLine.StartTime = 1700000000000, EndTime = 1700000299999, Interval = ''7'',
        OpenPrice = 100, ClosePrice = 104, HighPrice = 105, LowPrice = 99, Volume = 12,
        Turnover = 1230, Confirm = True, Timestamp = 1700000299000\<rparr>) = None
   \<and> fst (toGlobalKLine [''5'' \<mapsto> ''5m''] ''bybit''
        \<lparr>Exchange = '''', Symbol = '''', StartTime = 0, EndTime = 0, Interval = '''',
         Open = 0, Close = 0, High = 0, Low = 0, Volume = 0, QuoteVolume = 0,
         Closed = False\<rparr>
        \<lparr>KLine.StartTime = 1700000000000, EndTime = 1700000299999, Interval = ''7'',
         OpenPrice = 100, ClosePrice = 104, HighPrice = 105, LowPrice = 99, Volume = 12,
         Turnover = 1230, Confirm = True, Timestamp = 1700000299000\<rparr>
        ''ETHUSDT'')
     = \<lparr>Exchange = '''', Symbol = '''', StartTime = 0, EndTime = 0, Interval = '''',
         Open = 0, Close = 0, High = 0, Low = 0, Volume = 0, QuoteVolume = 0,
         Closed = False\<rparr>"
  using toGlobalKLine_interval [of "[''5'' \<mapsto> ''5m'']" "''bybit''"
        "\<lparr>Exchange = '''', Symbol = '''', StartTime = 0, EndTime = 0, Interval = '''',
         Open = 0, Close = 0, High = 0, Low = 0, Volume = 0, QuoteVolume = 0,
         Closed = False\<rparr>"
        "\<lparr>KLine.StartTime = 1700000000000, EndTime = 1700000299999, Interval = ''5'',
         OpenPrice = 100, ClosePrice = 104, HighPrice = 105, LowPrice = 99, Volume = 12,
         Turnover = 1230, Confirm = True, Timestamp = 1700000299000\<rparr>" "''ETHUSDT''"]
    toGlobalKLine_interval [of "[''5'' \<mapsto> ''5m'']" "''bybit''"
        "\<lparr>Exchange = '''', Symbol = '''', StartTime = 0, EndTime = 0, Interval = '''',
         Open = 0, Close = 0, High = 0, Low = 0, Volume = 0, QuoteVolume = 0,
         Closed = False\<rparr>"
        "\<lparr>KLine.StartTime = 1700000000000, EndTime = 1700000299999, Interval = ''7'',
         OpenPrice = 100, ClosePrice = 104, HighPrice = 105, LowPrice = 99, Volume = 12,
         Turnover = 1230, Confirm = True, Timestamp = 1700000299000\<rparr>" "''ETHUSDT''"]
  by (simp add: toGlobalKLine_def)

text \<open>
  C8. For every book event \<open>e\<close>, \<open>OrderBook\<close> returns a snapshot whose \<open>Symbol\<close>, \<open>Bids\<close>
  and \<open>Asks\<close> are those of \<open>e\<close>, the level sequences unchanged (not sorted, filtered or
  deduplicated); every other field of the snapshot keeps its zero value, and \<open>UpdateId\<close>,
  \<open>SequenceId\<close> and \<open>Type\<close> of \<open>e\<close> have no part in the result.
\<close>

theorem OrderBook_copies:
  "SliceOrderBook.Symbol (OrderBook zero e) = BookEvent.Symbol e
   \<and> SliceOrderBook.Bids (OrderBook zero e) = BookEvent.Bids e
   \<and> SliceOrderBook.Asks (OrderBook zero e) = BookEvent.Asks e
   \<and> SliceOrderBook.more (OrderBook zero e) = SliceOrderBook.more zero
   \<and> OrderBook zero (e\<lparr>UpdateId := u, SequenceId := q, BookEvent.Type := t\<rparr>)
       = OrderBook zero e"
  by (simp add: OrderBook_def)

text \<open>
  A delta with bids out of price order and one level given twice: the levels come out
  as they went in, and the update and sequence numbers leave no trace.
\<close>

theorem OrderBook_copies_witness:
  "OrderBook \<lparr>SliceOrderBook.Symbol = '''', Bids = [], Asks = []\<rparr>
     \<lparr>BookEvent.Symbol = ''BTCUSDT'',
      Bids = [\<lparr>Price = 100, Volume = 2\<rparr>, \<lparr>Price = 101, Volume = 1\<rparr>,
              \<lparr>Price = 100, Volume = 2\<rparr>],
      Asks = [\<lparr>Price = 103, Volume = 0\<rparr>, \<lparr>Price = 102, Volume = 5\<rparr>],
      UpdateId = 1, SequenceId = 77, Type = ''delta''\<rparr>
   = \<lparr>SliceOrderBook.Symbol = ''BTCUSDT'',
      Bids = [\<lparr>Price = 100, Volume = 2\<rparr>, \<lparr>Price = 101, Volume = 1\<rparr>,
              \<lparr>Price = 100, Volume = 2\<rparr>],
      Asks = [\<lparr>Price = 103, Volume = 0\<rparr>, \<lparr>Price = 102, Volume = 5\<rparr>]\<rparr>"
  using OrderBook_copies [of "\<lparr>SliceOrderBook.Symbol = '''', Bids = [], Asks = []\<rparr>"
     "\<lparr>BookEvent.Symbol = ''BTCUSDT'',
      Bids = [\<lparr>Price = 100, Volume = 2\<rparr>, \<lparr>Price = 101, Volume = 1\<rparr>,
              \<lparr>Price = 100, Volume = 2\<rparr>],
      Asks = [\<lparr>Price = 103, Volume = 0\<rparr>, \<lparr>Price = 102, Volume = 5\<rparr>],
      UpdateId = 1, SequenceId = 77, Type = ''delta''\<rparr>"]
  by (simp add: OrderBook_def)

end
